theory Spec2Isabelle
  imports Complex_Main
begin

section \<open>Python values used by \<open>app.py\<close>\<close>

text \<open>
  Python's \<open>str\<close> is modelled by \<^typ>\<open>string\<close>; a character outside ASCII stands as the
  bytes of its UTF-8 encoding. \<open>None\<close> is \<^const>\<open>None\<close>, and an exception that leaves a
  function is the \<^const>\<open>Inl\<close> branch of a sum.
\<close>

datatype exn_class =
    KeyError
  | IndexError
  | ValueError
  | TranscriptsDisabled
  | NoTranscriptFound
  | OtherException
  | NonException

text \<open>
  An exception carries its class and the text that \<open>str(e)\<close> gives. \<^const>\<open>OtherException\<close>
  is any other subclass of \<open>Exception\<close>; \<^const>\<open>NonException\<close> is a \<open>BaseException\<close> that
  is not an \<open>Exception\<close> (\<open>KeyboardInterrupt\<close>, \<open>SystemExit\<close>), which a bare \<open>except:\<close>
  catches and \<open>except Exception\<close> does not.
\<close>

datatype exn = Exn (cls: exn_class) (str: string)

definition is_Exception :: "exn \<Rightarrow> bool" where
  "is_Exception e = (cls e \<noteq> NonException)"

text \<open>\<open>d[k]\<close> on a dict: \<open>KeyError(k)\<close>, whose \<open>str\<close> is the \<open>repr\<close> of the key.\<close>

definition subscript_dict :: "(string \<rightharpoonup> 'v) \<Rightarrow> string \<Rightarrow> exn + 'v" where
  "subscript_dict d k =
     (case d k of
        None \<Rightarrow> Inl (Exn KeyError ([CHR 0x27] @ k @ [CHR 0x27]))
      | Some v \<Rightarrow> Inr v)"

text \<open>\<open>xs[n]\<close> on a list, for an index \<open>n \<ge> 0\<close>.\<close>

definition subscript_list :: "'a list \<Rightarrow> nat \<Rightarrow> exn + 'a" where
  "subscript_list xs n =
     (if n < length xs then Inr (xs ! n) else Inl (Exn IndexError ''list index out of range''))"

text \<open>\<open>s.split(c)\<close> for a separator of one character.\<close>

fun split_chr :: "char \<Rightarrow> string \<Rightarrow> string list" where
  "split_chr c [] = [[]]"
| "split_chr c (x # xs) =
     (if x = c then [] # split_chr c xs
      else (case split_chr c xs of
              [] \<Rightarrow> [[x]]
            | w # ws \<Rightarrow> (x # w) # ws))"

text \<open>\<open>sep.join(xs)\<close>.\<close>

fun join :: "string \<Rightarrow> string list \<Rightarrow> string" where
  "join sep [] = []"
| "join sep [x] = x"
| "join sep (x # y # ys) = x @ sep @ join sep (y # ys)"


section \<open>The standard library's URL functions, as \<open>get_video_id\<close> uses them\<close>

text \<open>
  \<open>urlparse(url)\<close> gives a \<open>ParseResult\<close>, of which the program reads the attributes
  \<open>hostname\<close> (\<open>None\<close> when the URL has no host), \<open>path\<close> and \<open>query\<close>.
\<close>

record ParseResult =
  hostname :: "string option"
  path :: string
  query :: string

text \<open>
  \<open>urlparse\<close> and \<open>parse_qs\<close> belong to \<open>urllib.parse\<close>, not to the program, so the program
  is modelled over any behaviour of the two: \<open>urlparse\<close> returns a result or raises,
  \<open>parse_qs\<close> returns a dict from names to lists of values.
\<close>

record stdlib =
  urlparse :: "string \<Rightarrow> exn + ParseResult"
  parse_qs :: "string \<Rightarrow> (string \<rightharpoonup> string list)"


section \<open>A model of \<open>urllib.parse\<close> for concrete URLs\<close>

text \<open>
  The definitions of this section follow \<open>urllib/parse.py\<close> of CPython 3.11 and serve to
  run the program on concrete URLs. Two validations of \<open>urlsplit\<close> are left out, since
  they rest on the \<open>ipaddress\<close> module and on the Unicode database: the check of a host
  written between brackets, and the NFKC check of a netloc with characters outside
  ASCII. \<open>str.lower\<close> is modelled on ASCII letters, and a percent-escape is decoded to the
  byte it names. The theorems about the program below hold for every \<^typ>\<open>stdlib\<close>, so
  none of them rests on this model.
\<close>

definition scheme_chars :: string where
  "scheme_chars = ''abcdefghijklmnopqrstuvwxyzABCDEFGHIJKLMNOPQRSTUVWXYZ0123456789+-.''"

definition ascii_letters :: string where
  "ascii_letters = ''abcdefghijklmnopqrstuvwxyzABCDEFGHIJKLMNOPQRSTUVWXYZ''"

definition uses_params :: "string list" where
  "uses_params = ['''', ''ftp'', ''hdl'', ''prospero'', ''http'', ''imap'',
                  ''https'', ''shttp'', ''rtsp'', ''rtsps'', ''rtspu'', ''sip'',
                  ''sips'', ''mms'', ''sftp'', ''tel'']"

definition UNSAFE_URL_BYTES_TO_REMOVE :: string where
  "UNSAFE_URL_BYTES_TO_REMOVE = [CHR 0x09, CHR 0x0D, CHR 0x0A]"

definition is_c0_control_or_space :: "char \<Rightarrow> bool" where
  "is_c0_control_or_space c = ((of_char c :: nat) \<le> 32)"

definition lower_chr :: "char \<Rightarrow> char" where
  "lower_chr c =
     (case map_of (zip ''ABCDEFGHIJKLMNOPQRSTUVWXYZ'' ''abcdefghijklmnopqrstuvwxyz'') c of
        None \<Rightarrow> c
      | Some l \<Rightarrow> l)"

definition lower :: "string \<Rightarrow> string" where
  "lower s = map lower_chr s"

text \<open>\<open>s.partition(c)\<close> and \<open>s.rpartition(c)\<close>: what is before, whether \<open>c\<close> occurs, what is after.\<close>

definition partition_chr :: "char \<Rightarrow> string \<Rightarrow> string \<times> bool \<times> string" where
  "partition_chr c s =
     (if c \<in> set s
      then (takeWhile (\<lambda>x. x \<noteq> c) s, True, drop 1 (dropWhile (\<lambda>x. x \<noteq> c) s))
      else (s, False, []))"

definition rpartition_chr :: "char \<Rightarrow> string \<Rightarrow> string \<times> bool \<times> string" where
  "rpartition_chr c s =
     (if c \<in> set s
      then (rev (drop 1 (dropWhile (\<lambda>x. x \<noteq> c) (rev s))), True,
            rev (takeWhile (\<lambda>x. x \<noteq> c) (rev s)))
      else ([], False, s))"

definition splitnetloc :: "string \<Rightarrow> string \<times> string" where
  "splitnetloc url =
     (let rest = drop 2 url
      in (takeWhile (\<lambda>c. c \<notin> set ''/?#'') rest, dropWhile (\<lambda>c. c \<notin> set ''/?#'') rest))"

definition splitparams :: "string \<Rightarrow> string \<times> string" where
  "splitparams url =
     (if CHR ''/'' \<in> set url then
        (let r = length url - 1 - length (takeWhile (\<lambda>c. c \<noteq> CHR ''/'') (rev url));
             i = r + length (takeWhile (\<lambda>c. c \<noteq> CHR '';'') (drop r url))
         in if CHR '';'' \<in> set (drop r url) then (take i url, drop (i + 1) url) else (url, []))
      else (takeWhile (\<lambda>c. c \<noteq> CHR '';'') url, drop 1 (dropWhile (\<lambda>c. c \<noteq> CHR '';'') url)))"

text \<open>\<open>urlsplit\<close>: scheme, netloc, path, query and fragment, or \<open>ValueError\<close>.\<close>

definition urlsplit :: "string \<Rightarrow> exn + (string \<times> string \<times> string \<times> string \<times> string)" where
  "urlsplit url0 =
     (let url1 = filter (\<lambda>c. c \<notin> set UNSAFE_URL_BYTES_TO_REMOVE)
                   (dropWhile is_c0_control_or_space url0);
          pre = takeWhile (\<lambda>c. c \<noteq> CHR '':'') url1;
          has_scheme = (CHR '':'' \<in> set url1 \<and> pre \<noteq> []
                        \<and> list_all (\<lambda>c. c \<in> set ascii_letters) (take 1 url1)
                        \<and> list_all (\<lambda>c. c \<in> set scheme_chars) pre);
          scheme = (if has_scheme then lower pre else []);
          url2 = (if has_scheme then drop (length pre + 1) url1 else url1);
          has_netloc = (take 2 url2 = ''//'');
          netloc = (if has_netloc then fst (splitnetloc url2) else []);
          url3 = (if has_netloc then snd (splitnetloc url2) else url2)
      in if has_netloc \<and> ((CHR ''['' \<in> set netloc) \<noteq> (CHR '']'' \<in> set netloc))
         then Inl (Exn ValueError ''Invalid IPv6 URL'')
         else
           (let (url4, _, fragment) = partition_chr CHR ''#'' url3;
                (url5, _, qs) = partition_chr CHR ''?'' url4
            in Inr (scheme, netloc, url5, qs, fragment)))"

text \<open>The \<open>hostname\<close> property of a result, computed from its netloc.\<close>

definition hostname_of_netloc :: "string \<Rightarrow> string option" where
  "hostname_of_netloc netloc =
     (let (_, _, hostinfo) = rpartition_chr CHR ''@'' netloc;
          (_, have_open_br, bracketed) = partition_chr CHR ''['' hostinfo;
          host = (if have_open_br then fst (partition_chr CHR '']'' bracketed)
                  else fst (partition_chr CHR '':'' hostinfo))
      in if host = [] then None
         else (let (h, percent, zone) = partition_chr CHR ''%'' host
               in Some (lower h @ (if percent then ''%'' else []) @ zone)))"

definition py_urlparse :: "string \<Rightarrow> exn + ParseResult" where
  "py_urlparse url =
     (case urlsplit url of
        Inl e \<Rightarrow> Inl e
      | Inr (scheme, netloc, url', qs, fragment) \<Rightarrow>
          Inr \<lparr> hostname = hostname_of_netloc netloc,
                path = (if scheme \<in> set uses_params \<and> CHR '';'' \<in> set url'
                        then fst (splitparams url') else url'),
                query = qs \<rparr>)"

text \<open>\<open>unquote\<close>: \<open>%xx\<close> with two hexadecimal digits becomes the byte \<open>xx\<close>.\<close>

definition hexdig :: "char \<Rightarrow> nat option" where
  "hexdig c = map_of (zip ''0123456789ABCDEFabcdef''
                          [0, 1, 2, 3, 4, 5, 6, 7, 8, 9, 10, 11, 12, 13, 14, 15,
                           10, 11, 12, 13, 14, 15]) c"

fun unquote :: "string \<Rightarrow> string" where
  "unquote (c # h1 # h2 # rest) =
     (case (c = CHR ''%'', hexdig h1, hexdig h2) of
        (True, Some a, Some b) \<Rightarrow> char_of (16 * a + b) # unquote rest
      | _ \<Rightarrow> c # unquote (h1 # h2 # rest))"
| "unquote s = s"

definition unquote_plus :: "string \<Rightarrow> string" where
  "unquote_plus s = unquote (map (\<lambda>c. if c = CHR ''+'' then CHR '' '' else c) s)"

text \<open>\<open>parse_qsl\<close> with its defaults: fields split at \<open>&\<close>, blank values dropped.\<close>

definition parse_qsl :: "string \<Rightarrow> (string \<times> string) list" where
  "parse_qsl qs =
     (if qs = [] then []
      else concat (map (\<lambda>name_value.
             (let (name, has_eq, val) = partition_chr CHR ''='' name_value
              in if name_value \<noteq> [] \<and> val \<noteq> []
                 then [(unquote_plus name, unquote_plus val)] else []))
           (split_chr CHR ''&'' qs)))"

definition py_parse_qs :: "string \<Rightarrow> (string \<rightharpoonup> string list)" where
  "py_parse_qs qs =
     fold (\<lambda>(name, val) parsed_result.
             (case parsed_result name of
                Some vs \<Rightarrow> parsed_result(name \<mapsto> vs @ [val])
              | None \<Rightarrow> parsed_result(name \<mapsto> [val])))
          (parse_qsl qs) Map.empty"

definition cpython :: stdlib where
  "cpython = \<lparr> urlparse = py_urlparse, parse_qs = py_parse_qs \<rparr>"


section \<open>\<open>get_video_id\<close>\<close>

text \<open>
  The result is \<open>Inr (Some id)\<close> for \<open>return id\<close>, \<open>Inr None\<close> for \<open>return None\<close>, and
  \<open>Inl e\<close> when \<open>e\<close> is raised. The slice \<open>s[1:]\<close> is \<open>drop 1 s\<close> and \<open>s[:n]\<close> is \<open>take n s\<close>.
\<close>

definition get_video_id :: "stdlib \<Rightarrow> string \<Rightarrow> exn + string option" where
  "get_video_id lib url =
     (case urlparse lib url of
        Inl e \<Rightarrow> Inl e
      | Inr parsed \<Rightarrow>
          if hostname parsed = Some ''youtu.be'' then
            Inr (Some (drop 1 (path parsed)))
          else if hostname parsed \<in> {Some ''www.youtube.com'', Some ''youtube.com''} then
            if path parsed = ''/watch'' then
              (case subscript_dict (parse_qs lib (query parsed)) ''v'' of
                 Inl e \<Rightarrow> Inl e
               | Inr vs \<Rightarrow>
                   (case subscript_list vs 0 of
                      Inl e \<Rightarrow> Inl e
                    | Inr v \<Rightarrow> Inr (Some v)))
            else if take 7 (path parsed) = ''/embed/'' then
              (case subscript_list (split_chr CHR ''/'' (path parsed)) 2 of
                 Inl e \<Rightarrow> Inl e
               | Inr v \<Rightarrow> Inr (Some v))
            else if take 3 (path parsed) = ''/v/'' then
              (case subscript_list (split_chr CHR ''/'' (path parsed)) 2 of
                 Inl e \<Rightarrow> Inl e
               | Inr v \<Rightarrow> Inr (Some v))
            else Inr None
          else Inr None)"


section \<open>The services and the user interface\<close>

text \<open>
  The transcript service, the generation service and Streamlit are outside the program.
  A run is modelled by the value it returns together with the list of its calls to them,
  in order. The calls to Streamlit are taken not to raise.
\<close>

record segment =
  seg_text :: string
  start :: rat
  duration :: rat

record GenerationConfig =
  temperature :: rat
  top_p :: rat
  top_k :: int
  max_output_tokens :: int

datatype 'm effect =
    St_error string
  | St_warning string
  | St_success string
  | St_markdown string
  | St_subheader string
  | St_write string
  | St_spinner string
  | St_columns nat
  | St_download_button string string string string
  | St_stop
  | Call_list_transcripts string
  | Call_get_transcript string "string list option"
  | Call_GenerativeModel string
  | Call_generate_content 'm string "(string \<times> string) list" GenerationConfig

text \<open>
  Each operation of a service returns or raises. Of the object that \<open>list_transcripts\<close>
  returns the program reads only the truth value, which is what the model keeps.
  \<open>get_transcript\<close> takes the video and the \<open>languages\<close> argument (\<open>None\<close> when it is not
  given) and returns the segments, of which the program reads \<open>'text'\<close>.
  \<open>GenerativeModel\<close> builds a model of type \<open>'m\<close> from a name; \<open>generate_content\<close> takes the
  model, the prompt, the safety settings and the generation configuration and gives the
  \<open>text\<close> of the response.
\<close>

record 'm services =
  list_transcripts :: "string \<Rightarrow> exn + bool"
  get_transcript :: "string \<Rightarrow> string list option \<Rightarrow> exn + segment list"
  GenerativeModel :: "string \<Rightarrow> exn + 'm"
  generate_content ::
    "'m \<Rightarrow> string \<Rightarrow> (string \<times> string) list \<Rightarrow> GenerationConfig \<Rightarrow> exn + string"

text \<open>The signs that open the messages, as UTF-8.\<close>

definition warning_sign :: string where
  "warning_sign = [CHR 0xE2, CHR 0x9A, CHR 0xA0, CHR 0xEF, CHR 0xB8, CHR 0x8F]"

definition muted_speaker :: string where
  "muted_speaker = [CHR 0xF0, CHR 0x9F, CHR 0x94, CHR 0x87]"

definition cross_mark :: string where
  "cross_mark = [CHR 0xE2, CHR 0x9D, CHR 0x8C]"

definition magnifying_glass :: string where
  "magnifying_glass = [CHR 0xF0, CHR 0x9F, CHR 0x94, CHR 0x8D]"

definition police_light :: string where
  "police_light = [CHR 0xF0, CHR 0x9F, CHR 0x9A, CHR 0xA8]"

definition check_mark :: string where
  "check_mark = [CHR 0xE2, CHR 0x9C, CHR 0x85]"

definition brain :: string where
  "brain = [CHR 0xF0, CHR 0x9F, CHR 0xA7, CHR 0xA0]"


section \<open>\<open>extract_transcript_details\<close>\<close>

text \<open>The body of the outer \<open>try\<close>: what it returns or raises, and the calls made.\<close>

definition extract_transcript_details_try ::
  "stdlib \<Rightarrow> 'm services \<Rightarrow> string \<Rightarrow> (exn + string option) \<times> 'm effect list" where
  "extract_transcript_details_try lib svc youtube_video_url =
     (case get_video_id lib youtube_video_url of
        Inl e \<Rightarrow> (Inl e, [])
      | Inr None \<Rightarrow> (Inr None, [St_error (warning_sign @ '' Invalid YouTube URL format'')])
      | Inr (Some video_id) \<Rightarrow>
          if video_id = [] then
            (Inr None, [St_error (warning_sign @ '' Invalid YouTube URL format'')])
          else
            (case list_transcripts svc video_id of
               Inl e \<Rightarrow> (Inl e, [Call_list_transcripts video_id])
             | Inr transcript_list \<Rightarrow>
                 if \<not> transcript_list then
                   (Inr None,
                    [Call_list_transcripts video_id,
                     St_warning (muted_speaker @ '' No transcripts available for this video'')])
                 else
                   (case get_transcript svc video_id (Some [''en'']) of
                      Inr transcript \<Rightarrow>
                        (Inr (Some (join '' '' (map seg_text transcript))),
                         [Call_list_transcripts video_id,
                          Call_get_transcript video_id (Some [''en''])])
                    | Inl _ \<Rightarrow>
                        (case get_transcript svc video_id None of
                           Inl e \<Rightarrow>
                             (Inl e,
                              [Call_list_transcripts video_id,
                               Call_get_transcript video_id (Some [''en'']),
                               Call_get_transcript video_id None])
                         | Inr transcript \<Rightarrow>
                             (Inr (Some (join '' '' (map seg_text transcript))),
                              [Call_list_transcripts video_id,
                               Call_get_transcript video_id (Some [''en'']),
                               Call_get_transcript video_id None])))))"

text \<open>The three handlers of the outer \<open>try\<close>, in the order of the source.\<close>

definition extract_transcript_details ::
  "stdlib \<Rightarrow> 'm services \<Rightarrow> string \<Rightarrow> (exn + string option) \<times> 'm effect list" where
  "extract_transcript_details lib svc youtube_video_url =
     (case extract_transcript_details_try lib svc youtube_video_url of
        (Inr r, effs) \<Rightarrow> (Inr r, effs)
      | (Inl e, effs) \<Rightarrow>
          if cls e = TranscriptsDisabled then
            (Inr None, effs @ [St_error (cross_mark @ '' Transcripts are disabled for this video'')])
          else if cls e = NoTranscriptFound then
            (Inr None, effs @ [St_error (magnifying_glass @ '' No transcripts found for this video'')])
          else if is_Exception e then
            (Inr None, effs @ [St_error (warning_sign @ '' Error: '' @ str e)])
          else (Inl e, effs))"


section \<open>\<open>generate_gemini_content\<close>\<close>

definition PROMPT_TEMPLATE :: string where
  "PROMPT_TEMPLATE = concat (map (\<lambda>l. l @ [CHR 0x0A])
     [[],
      ''Please analyze the following YouTube video transcript and provide a concise summary with:'',
      ''1. Main topic and purpose (1-2 sentences)'',
      ''2. 3-5 key points (as bullet points)'',
      ''3. Any important facts, figures, or statistics mentioned'',
      ''4. Overall conclusions or takeaways'',
      [],
      ''Guidelines:'',
      ''- Keep summary under 250 words'',
      ''- Use neutral, academic tone'',
      ''- Focus on factual content only'',
      ''- Format with clear section headings'',
      [],
      ''Transcript:'',
      ''{transcript}''])"

text \<open>
  \<open>template.format(transcript=t)\<close> for a template whose only braces are those of the
  field \<open>{transcript}\<close>: the field is replaced, every other character is kept.
\<close>

fun format_transcript :: "string \<Rightarrow> string \<Rightarrow> string" where
  "format_transcript [] t = []"
| "format_transcript (c # cs) t =
     (if take 12 (c # cs) = ''{transcript}''
      then t @ format_transcript (drop 11 cs) t
      else c # format_transcript cs t)"

definition model_names_to_try :: "string list" where
  "model_names_to_try = [''gemini-1.5-pro-latest'', ''gemini-pro'', ''models/gemini-pro'']"

definition safety_settings :: "(string \<times> string) list" where
  "safety_settings =
     [(''HARM_CATEGORY_HARASSMENT'', ''BLOCK_ONLY_HIGH''),
      (''HARM_CATEGORY_HATE_SPEECH'', ''BLOCK_ONLY_HIGH''),
      (''HARM_CATEGORY_SEXUALLY_EXPLICIT'', ''BLOCK_ONLY_HIGH''),
      (''HARM_CATEGORY_DANGEROUS_CONTENT'', ''BLOCK_ONLY_HIGH'')]"

definition generation_config :: GenerationConfig where
  "generation_config =
     \<lparr> temperature = 3 / 10, top_p = 95 / 100, top_k = 40, max_output_tokens = 2048 \<rparr>"

text \<open>
  The loop over the names: \<open>model\<close> and \<open>last_error\<close> at its end, or the exception that
  leaves it. The inner handler is \<open>except Exception\<close>, so any other exception leaves the
  loop.
\<close>

fun load_model ::
  "'m services \<Rightarrow> string list \<Rightarrow> exn option \<Rightarrow>
     (exn + ('m option \<times> exn option)) \<times> 'm effect list" where
  "load_model svc [] last_error = (Inr (None, last_error), [])"
| "load_model svc (model_name # names) last_error =
     (case GenerativeModel svc model_name of
        Inr model \<Rightarrow> (Inr (Some model, last_error), [Call_GenerativeModel model_name])
      | Inl e \<Rightarrow>
          if is_Exception e then
            (case load_model svc names (Some e) of
               (r, effs) \<Rightarrow> (r, Call_GenerativeModel model_name # effs))
          else (Inl e, [Call_GenerativeModel model_name]))"

text \<open>\<open>str(last_error)\<close> inside the message, \<open>last_error\<close> being an exception or \<open>None\<close>.\<close>

definition str_opt :: "exn option \<Rightarrow> string" where
  "str_opt last_error = (case last_error of None \<Rightarrow> ''None'' | Some e \<Rightarrow> str e)"

definition generate_gemini_content_try ::
  "'m services \<Rightarrow> string \<Rightarrow> (exn + string) \<times> 'm effect list" where
  "generate_gemini_content_try svc transcript_text =
     (case load_model svc model_names_to_try None of
        (Inl e, effs) \<Rightarrow> (Inl e, effs)
      | (Inr (None, last_error), effs) \<Rightarrow>
          (Inl (Exn OtherException
                 (''Could not load any model. Last error: '' @ str_opt last_error)), effs)
      | (Inr (Some model, last_error), effs) \<Rightarrow>
          (generate_content svc model (format_transcript PROMPT_TEMPLATE transcript_text)
             safety_settings generation_config,
           effs @ [Call_generate_content model
                     (format_transcript PROMPT_TEMPLATE transcript_text)
                     safety_settings generation_config]))"

definition generate_gemini_content ::
  "'m services \<Rightarrow> string \<Rightarrow> (exn + string option) \<times> 'm effect list" where
  "generate_gemini_content svc transcript_text =
     (case generate_gemini_content_try svc transcript_text of
        (Inr response_text, effs) \<Rightarrow> (Inr (Some response_text), effs)
      | (Inl e, effs) \<Rightarrow>
          if is_Exception e then
            (Inr None, effs @ [St_error (police_light @ '' Generation failed: '' @ str e)])
          else (Inl e, effs))"


section \<open>The \<open>Generate Summary\<close> button\<close>

text \<open>
  The block under \<open>if st.button("Generate Summary", type="primary")\<close>, run with the values
  of the two sliders (\<open>max_length\<close>, and \<open>temperature\<close>, here \<open>temperature_slider\<close>) and of the
  text input. It gives the exception that ends the script,
  if one does, and the calls made. \<open>st.stop()\<close> ends the script.
\<close>

definition generate_summary ::
  "stdlib \<Rightarrow> 'm services \<Rightarrow> int \<Rightarrow> rat \<Rightarrow> string \<Rightarrow> exn option \<times> 'm effect list" where
  "generate_summary lib svc max_length temperature_slider youtube_link =
     (if youtube_link = [] then
        (None, [St_warning ''Please enter a YouTube URL'', St_stop])
      else
        (case extract_transcript_details lib svc youtube_link of
           (Inl e, effs) \<Rightarrow>
             (Some e, St_spinner (magnifying_glass @ '' Extracting transcript...'') # effs)
         | (Inr None, effs) \<Rightarrow>
             (None, St_spinner (magnifying_glass @ '' Extracting transcript...'') # effs
                      @ [St_stop])
         | (Inr (Some transcript), effs) \<Rightarrow>
             if transcript = [] then
               (None, St_spinner (magnifying_glass @ '' Extracting transcript...'') # effs
                        @ [St_stop])
             else
               (case generate_gemini_content svc transcript of
                  (Inl e, effs') \<Rightarrow>
                    (Some e,
                     St_spinner (magnifying_glass @ '' Extracting transcript...'') # effs
                       @ St_spinner (brain @ '' Generating summary (this may take a minute)...'')
                       # effs')
                | (Inr summary, effs') \<Rightarrow>
                    (None,
                     St_spinner (magnifying_glass @ '' Extracting transcript...'') # effs
                       @ St_spinner (brain @ '' Generating summary (this may take a minute)...'')
                       # effs'
                       @ (case summary of
                            None \<Rightarrow>
                              [St_error ''Failed to generate summary. Please try a different video or check your API key permissions.'']
                          | Some summary_text \<Rightarrow>
                              if summary_text = [] then
                                [St_error ''Failed to generate summary. Please try a different video or check your API key permissions.'']
                              else
                                [St_success (check_mark @ '' Summary generated successfully!''),
                                 St_markdown ''---'',
                                 St_subheader ''Summary'',
                                 St_write summary_text,
                                 St_columns 2,
                                 St_download_button ''Download as TXT'' summary_text
                                   ''youtube_summary.txt'' ''text/plain'',
                                 St_download_button ''Download as MD''
                                   (''# YouTube Summary'' @ [CHR 0x0A, CHR 0x0A] @ summary_text)
                                   ''youtube_summary.md'' ''text/markdown''])))))"


section \<open>What the specification says, as definitions\<close>

text \<open>
  The case analysis of the specification for the identifier of a parsed URL. The path
  segment that follows a prefix of \<open>n\<close> characters runs up to the next \<open>/\<close>; the first path
  segment is the one that follows the leading \<open>/\<close>. A failure is \<^const>\<open>None\<close>.
\<close>

definition segment_after :: "nat \<Rightarrow> string \<Rightarrow> string" where
  "segment_after n p = takeWhile (\<lambda>c. c \<noteq> CHR ''/'') (drop n p)"

definition canonical_host :: "string option \<Rightarrow> bool" where
  "canonical_host h = (h = Some ''www.youtube.com'' \<or> h = Some ''youtube.com'')"

definition spec_video_id :: "stdlib \<Rightarrow> ParseResult \<Rightarrow> string option" where
  "spec_video_id lib u =
     (if hostname u = Some ''youtu.be'' then Some (segment_after 1 (path u))
      else if canonical_host (hostname u) then
        if path u = ''/watch'' then
          (case parse_qs lib (query u) ''v'' of
             Some (v # vs) \<Rightarrow> Some v
           | _ \<Rightarrow> None)
        else if take 7 (path u) = ''/embed/'' then Some (segment_after 7 (path u))
        else if take 3 (path u) = ''/v/'' then Some (segment_after 3 (path u))
        else None
      else None)"

definition spec_get_video_id :: "stdlib \<Rightarrow> string \<Rightarrow> string option" where
  "spec_get_video_id lib url =
     (case urlparse lib url of Inl e \<Rightarrow> None | Inr u \<Rightarrow> spec_video_id lib u)"

text \<open>
  The same case analysis with the short link read as the program reads it: the whole
  path without its first character.
\<close>

definition amended_video_id :: "stdlib \<Rightarrow> ParseResult \<Rightarrow> string option" where
  "amended_video_id lib u =
     (if hostname u = Some ''youtu.be'' then Some (drop 1 (path u)) else spec_video_id lib u)"

text \<open>
  The texts in their order, with one space between two neighbours: the first text, then
  every further text behind a space.
\<close>

definition space_joined :: "string list \<Rightarrow> string" where
  "space_joined xs =
     (case xs of [] \<Rightarrow> [] | x # rest \<Rightarrow> x @ concat (map (\<lambda>y. CHR '' '' # y) rest))"


fun is_generation_call :: "'m effect \<Rightarrow> bool" where
  "is_generation_call (Call_GenerativeModel model_name) = True"
| "is_generation_call (Call_generate_content model prompt settings config) = True"
| "is_generation_call _ = False"

fun is_download :: "'m effect \<Rightarrow> bool" where
  "is_download (St_download_button label data file_name mime) = True"
| "is_download _ = False"


section \<open>Services for the examples\<close>

text \<open>
  A transcript service with no English transcript and a default one of two segments; a
  generation service that knows the name \<open>gemini-pro\<close> only and answers with the prompt
  behind a heading. \<open>rejecting_services\<close> knows no name at all.
\<close>

definition stub_services :: "string services" where
  "stub_services =
     \<lparr> list_transcripts = (\<lambda>video_id. Inr True),
       get_transcript = (\<lambda>video_id languages.
          if languages = Some [''en'']
          then Inl (Exn NoTranscriptFound ''no transcript in the requested languages'')
          else Inr [\<lparr> seg_text = ''Hello'', start = 0, duration = 1 \<rparr>,
                    \<lparr> seg_text = ''world'', start = 1, duration = 1 \<rparr>]),
       GenerativeModel = (\<lambda>model_name.
          if model_name = ''gemini-pro'' then Inr model_name
          else Inl (Exn OtherException (''unknown model '' @ model_name))),
       generate_content = (\<lambda>model prompt settings config. Inr (''Summary of: '' @ prompt)) \<rparr>"

definition rejecting_services :: "string services" where
  "rejecting_services =
     stub_services \<lparr> GenerativeModel :=
       (\<lambda>model_name. Inl (Exn OtherException (''unknown model '' @ model_name))) \<rparr>"

definition silent_services :: "string services" where
  "silent_services = stub_services \<lparr> list_transcripts := (\<lambda>video_id. Inr False) \<rparr>"


section \<open>Lemmas on the Python primitives\<close>

lemmas cpython_defs =
  cpython_def py_urlparse_def urlsplit_def splitnetloc_def splitparams_def partition_chr_def
  rpartition_chr_def hostname_of_netloc_def is_c0_control_or_space_def
  UNSAFE_URL_BYTES_TO_REMOVE_def ascii_letters_def scheme_chars_def lower_def lower_chr_def
  uses_params_def py_parse_qs_def parse_qsl_def unquote_plus_def hexdig_def

text \<open>\<open>split\<close> gives the text before the first separator, then the split of what follows it.\<close>

lemma split_chr_unfold:
  "split_chr c s = takeWhile (\<lambda>x. x \<noteq> c) s #
     (case dropWhile (\<lambda>x. x \<noteq> c) s of [] \<Rightarrow> [] | _ # r \<Rightarrow> split_chr c r)"
  by (induction s) (auto split: list.splits)

text \<open>
  Behind the prefix \<open>/embed/\<close> or \<open>/v/\<close> the list has at least three elements, so the
  subscript \<open>[2]\<close> never raises, and it is the segment behind the prefix.
\<close>

lemma split_embed:
  assumes "take 7 p = ''/embed/''"
  shows "subscript_list (split_chr CHR ''/'' p) 2 = Inr (segment_after 7 p)"
proof -
  obtain r where p: "p = ''/embed/'' @ r"
    using assms append_take_drop_id [of 7 p] by metis
  have "split_chr CHR ''/'' (''/embed/'' @ r) = [] # ''embed'' # split_chr CHR ''/'' r"
    by (simp add: split_chr_unfold [of _ r])
  then show ?thesis
    unfolding p by (simp add: subscript_list_def segment_after_def split_chr_unfold [of _ r])
qed

lemma split_v:
  assumes "take 3 p = ''/v/''"
  shows "subscript_list (split_chr CHR ''/'' p) 2 = Inr (segment_after 3 p)"
proof -
  obtain r where p: "p = ''/v/'' @ r"
    using assms append_take_drop_id [of 3 p] by metis
  have "split_chr CHR ''/'' (''/v/'' @ r) = [] # ''v'' # split_chr CHR ''/'' r"
    by (simp add: split_chr_unfold [of _ r])
  then show ?thesis
    unfolding p by (simp add: subscript_list_def segment_after_def split_chr_unfold [of _ r])
qed

lemma join_space_joined: "join '' '' xs = space_joined xs"
  by (induction "'' ''" xs rule: join.induct) (simp_all add: space_joined_def)


section \<open>The identifier extractor\<close>

text \<open>
  Claim C1, as the program has it. When \<open>urlparse\<close> returns and, on the watch route, the
  query has a parameter \<open>v\<close>, \<open>get_video_id\<close> returns what the case analysis of the
  specification gives, but for the short link: there the identifier is the whole path
  without its first character, not its first segment. The hosts of the video site are
  \<open>www.youtube.com\<close> and \<open>youtube.com\<close>; of a repeated parameter \<open>v\<close> the first value counts.
\<close>

theorem get_video_id_case_analysis:
  assumes "urlparse lib url = Inr u"
      and "canonical_host (hostname u) \<and> path u = ''/watch''
             \<longrightarrow> (\<exists>v vs. parse_qs lib (query u) ''v'' = Some (v # vs))"
  shows "get_video_id lib url = Inr (amended_video_id lib u)"
proof (cases "canonical_host (hostname u) \<and> path u = ''/watch''")
  case True
  then obtain v vs where "parse_qs lib (query u) ''v'' = Some (v # vs)"
    using assms(2) by blast
  with True assms(1) show ?thesis
    by (auto simp: get_video_id_def amended_video_id_def spec_video_id_def canonical_host_def
                   subscript_dict_def subscript_list_def)
next
  case False
  with assms(1) show ?thesis
    by (auto simp: get_video_id_def amended_video_id_def spec_video_id_def canonical_host_def
                   split_embed split_v)
qed

theorem get_video_id_case_analysis_witness:
  "urlparse cpython ''https://www.youtube.com/watch?v=abc123''
     = Inr \<lparr> hostname = Some ''www.youtube.com'', path = ''/watch'', query = ''v=abc123'' \<rparr>
   \<and> parse_qs cpython ''v=abc123'' ''v'' = Some [''abc123'']
   \<and> get_video_id cpython ''https://www.youtube.com/watch?v=abc123'' = Inr (Some ''abc123'')"
  using get_video_id_case_analysis [of cpython "''https://www.youtube.com/watch?v=abc123''"
          "\<lparr> hostname = Some ''www.youtube.com'', path = ''/watch'', query = ''v=abc123'' \<rparr>"]
  by (simp add: cpython_defs amended_video_id_def spec_video_id_def canonical_host_def)

text \<open>
  The claim as the specification words it fails on a short link with two path segments:
  the program returns both, the specification's case analysis the first.
\<close>

theorem short_link_counterexample:
  "get_video_id cpython ''https://youtu.be/abc/def'' = Inr (Some ''abc/def'')
   \<and> spec_get_video_id cpython ''https://youtu.be/abc/def'' = Some ''abc''
   \<and> get_video_id cpython ''https://youtu.be/abc/def''
       \<noteq> Inr (spec_get_video_id cpython ''https://youtu.be/abc/def'')"
  by (simp add: get_video_id_def spec_get_video_id_def spec_video_id_def segment_after_def
        cpython_defs)

text \<open>
  Claim C2 asks that \<open>get_video_id\<close> never raise and that a watch URL without \<open>v\<close> be an
  extraction failure. On such a URL the subscript \<open>parse_qs(query.query)['v']\<close> raises
  \<open>KeyError\<close>, whose text is \<open>'v'\<close>, where the other unrecognised forms reach \<open>return None\<close>.
\<close>

theorem watch_without_v_raises:
  "get_video_id cpython ''https://www.youtube.com/watch''
     = Inl (Exn KeyError [CHR 0x27, CHR ''v'', CHR 0x27])"
  by (simp add: get_video_id_def subscript_dict_def cpython_defs)

text \<open>
  Claim C9, as the program has it. \<open>get_video_id\<close> returns one value: an identifier, \<open>None\<close>
  or an exception. The identifier it returns is empty exactly on a short link whose path
  has at most one character, and on the embed and \<open>/v/\<close> routes when nothing stands between
  the prefix and the next \<open>/\<close>; on the watch route it is not empty, \<open>parse_qs\<close> dropping the
  blank values.
\<close>

theorem identifier_empty_iff:
  assumes "get_video_id lib url = Inr (Some vid)"
      and "urlparse lib url = Inr u"
      and "\<And>vs. parse_qs lib (query u) ''v'' = Some vs \<Longrightarrow> [] \<notin> set vs"
  shows "vid = [] \<longleftrightarrow>
           (hostname u = Some ''youtu.be'' \<and> length (path u) \<le> 1)
         \<or> (hostname u \<noteq> Some ''youtu.be'' \<and> take 7 (path u) = ''/embed/''
              \<and> segment_after 7 (path u) = [])
         \<or> (hostname u \<noteq> Some ''youtu.be'' \<and> take 7 (path u) \<noteq> ''/embed/''
              \<and> take 3 (path u) = ''/v/'' \<and> segment_after 3 (path u) = [])"
proof (cases "hostname u = Some ''youtu.be''")
  case True
  with assms(1,2) show ?thesis
    by (auto simp: get_video_id_def)
next
  case host: False
  show ?thesis
  proof (cases "path u = ''/watch''")
    case True
    with host assms(1,2) obtain vs where vs: "parse_qs lib (query u) ''v'' = Some vs"
      and v: "subscript_list vs 0 = Inr vid"
      by (auto simp: get_video_id_def subscript_dict_def split: if_splits option.splits sum.splits)
    from v have "vid \<in> set vs"
      by (auto simp: subscript_list_def split: if_splits)
    with assms(3) [OF vs] have "vid \<noteq> []" by auto
    with host True show ?thesis by simp
  next
    case False
    with host assms(1,2) show ?thesis
      by (auto simp: get_video_id_def split_embed split_v split: if_splits)
  qed
qed

theorem identifier_empty_iff_witness:
  "get_video_id cpython ''https://www.youtube.com/embed/'' = Inr (Some [])
   \<and> urlparse cpython ''https://www.youtube.com/embed/''
       = Inr \<lparr> hostname = Some ''www.youtube.com'', path = ''/embed/'', query = [] \<rparr>
   \<and> parse_qs cpython [] ''v'' = None
   \<and> segment_after 7 ''/embed/'' = []"
  using identifier_empty_iff [of cpython "''https://www.youtube.com/embed/''" "[]"
          "\<lparr> hostname = Some ''www.youtube.com'', path = ''/embed/'', query = [] \<rparr>"]
  by (simp add: get_video_id_def subscript_list_def segment_after_def cpython_defs)

text \<open>
  The invariant as the specification words it fails on the short link with an empty
  path: extraction succeeds with the empty identifier.
\<close>

theorem empty_identifier_counterexample:
  "get_video_id cpython ''https://youtu.be/'' = Inr (Some [])"
  by (simp add: get_video_id_def cpython_defs)


section \<open>The transcript retriever\<close>

text \<open>
  Claim C10. When \<open>get_video_id\<close> returns \<open>None\<close> or the empty string,
  \<open>extract_transcript_details\<close> reports the invalid URL and returns \<open>None\<close> with no call to
  the transcript service; and in no run is the service called with the empty identifier.
\<close>

theorem empty_identifier_rejected:
  "(get_video_id lib url = Inr None \<or> get_video_id lib url = Inr (Some [])
      \<longrightarrow> extract_transcript_details lib svc url
            = (Inr None, [St_error (warning_sign @ '' Invalid YouTube URL format'')]))
   \<and> Call_list_transcripts [] \<notin> set (snd (extract_transcript_details lib svc url))
   \<and> Call_get_transcript [] languages \<notin> set (snd (extract_transcript_details lib svc url))"
  by (auto simp: extract_transcript_details_def extract_transcript_details_try_def
           split: sum.splits option.splits if_splits)

theorem empty_identifier_rejected_witness:
  "get_video_id cpython ''https://youtu.be/'' = Inr (Some [])
   \<and> extract_transcript_details cpython stub_services ''https://youtu.be/''
       = (Inr None, [St_error (warning_sign @ '' Invalid YouTube URL format'')])"
  using empty_identifier_rejected [of cpython "''https://youtu.be/''" stub_services]
  by (simp add: get_video_id_def cpython_defs)



text \<open>
  Claim C4. With a valid identifier and a transcript list, whatever segments the fetch
  that succeeds returns (the English one, or the second one after the English one
  raised), the retriever returns their texts in their order with one space between two
  neighbours; the segments \<open>Hello\<close> and \<open>world\<close> give \<open>Hello world\<close>.
\<close>

theorem transcript_text_space_joined:
  assumes "get_video_id lib url = Inr (Some vid)" and "vid \<noteq> []"
      and "list_transcripts svc vid = Inr True"
      and "get_transcript svc vid (Some [''en'']) = Inr segs
           \<or> (\<exists>e. get_transcript svc vid (Some [''en'']) = Inl e)
              \<and> get_transcript svc vid None = Inr segs"
  shows "fst (extract_transcript_details lib svc url)
           = Inr (Some (space_joined (map seg_text segs)))"
  using assms
  by (auto simp: extract_transcript_details_def extract_transcript_details_try_def
                 join_space_joined)

theorem transcript_text_space_joined_witness:
  "get_video_id cpython ''https://youtu.be/abc'' = Inr (Some ''abc'')
   \<and> get_transcript stub_services ''abc'' None
       = Inr [\<lparr> seg_text = ''Hello'', start = 0, duration = 1 \<rparr>,
              \<lparr> seg_text = ''world'', start = 1, duration = 1 \<rparr>]
   \<and> space_joined [''Hello'', ''world''] = ''Hello world''
   \<and> fst (extract_transcript_details cpython stub_services ''https://youtu.be/abc'')
       = Inr (Some ''Hello world'')"
  using transcript_text_space_joined [of cpython "''https://youtu.be/abc''" "''abc''"
          stub_services
          "[\<lparr> seg_text = ''Hello'', start = 0, duration = 1 \<rparr>,
            \<lparr> seg_text = ''world'', start = 1, duration = 1 \<rparr>]"]
  by (simp add: get_video_id_def stub_services_def space_joined_def cpython_defs)

text \<open>
  Claim C5. When the transcript service answers the listing with a value that counts as
  false, the retriever warns that no transcripts are available and returns \<open>None\<close>, and
  the run of the button then makes no call to the generation service.
\<close>

theorem no_transcripts_no_generation:
  assumes "get_video_id lib url = Inr (Some vid)" and "vid \<noteq> []"
      and "list_transcripts svc vid = Inr False"
  shows "extract_transcript_details lib svc url
           = (Inr None,
              [Call_list_transcripts vid,
               St_warning (muted_speaker @ '' No transcripts available for this video'')])
         \<and> filter is_generation_call
              (snd (generate_summary lib svc max_length temperature_slider url)) = []"
proof -
  have e: "extract_transcript_details lib svc url
           = (Inr None,
              [Call_list_transcripts vid,
               St_warning (muted_speaker @ '' No transcripts available for this video'')])"
    using assms
    by (simp add: extract_transcript_details_def extract_transcript_details_try_def)
  then show ?thesis
    by (simp add: generate_summary_def)
qed

theorem no_transcripts_no_generation_witness:
  "get_video_id cpython ''https://youtu.be/abc'' = Inr (Some ''abc'')
   \<and> list_transcripts silent_services ''abc'' = Inr False
   \<and> extract_transcript_details cpython silent_services ''https://youtu.be/abc''
       = (Inr None,
          [Call_list_transcripts ''abc'',
           St_warning (muted_speaker @ '' No transcripts available for this video'')])"
  using no_transcripts_no_generation [of cpython "''https://youtu.be/abc''" "''abc''"
          silent_services 250 "3 / 10"]
  by (simp add: get_video_id_def silent_services_def stub_services_def cpython_defs)


section \<open>The summary generator\<close>

text \<open>The loop over the names calls \<open>GenerativeModel\<close> and nothing else.\<close>

lemma load_model_effects:
  "x \<in> set (snd (load_model svc names last_error)) \<Longrightarrow> \<exists>n. x = Call_GenerativeModel n"
proof (induction names arbitrary: last_error)
  case Nil
  then show ?case by simp
next
  case (Cons n names)
  show ?case
  proof (cases "GenerativeModel svc n")
    case (Inr m)
    with Cons.prems show ?thesis by simp
  next
    case (Inl e)
    show ?thesis
    proof (cases "is_Exception e")
      case True
      with Inl Cons.prems
      have "x = Call_GenerativeModel n \<or> x \<in> set (snd (load_model svc names (Some e)))"
        by (auto split: prod.splits)
      with Cons.IH show ?thesis by blast
    next
      case False
      with Inl Cons.prems show ?thesis by simp
    qed
  qed
qed

text \<open>The loop stops at the first name that is accepted, having tried those before it.\<close>

lemma load_model_first_accepted:
  assumes "i < length names"
      and "GenerativeModel svc (names ! i) = Inr m"
      and "\<forall>j<i. \<exists>e. GenerativeModel svc (names ! j) = Inl e \<and> is_Exception e"
  shows "\<exists>le. load_model svc names last_error
              = (Inr (Some m, le), map Call_GenerativeModel (take (Suc i) names))"
  using assms
proof (induction names arbitrary: i last_error)
  case Nil
  then show ?case by simp
next
  case (Cons n names)
  show ?case
  proof (cases i)
    case 0
    with Cons.prems show ?thesis by simp
  next
    case (Suc k)
    from Cons.prems(3) Suc obtain e where e: "GenerativeModel svc n = Inl e" "is_Exception e"
      by fastforce
    have "\<forall>j<k. \<exists>e. GenerativeModel svc (names ! j) = Inl e \<and> is_Exception e"
      using Cons.prems(3) Suc by fastforce
    with Cons.IH [of k "Some e"] Cons.prems(1,2) Suc
    obtain le where "load_model svc names (Some e)
                       = (Inr (Some m, le), map Call_GenerativeModel (take (Suc k) names))"
      by auto
    with e Suc show ?thesis by simp
  qed
qed

text \<open>When every name is rejected, the loop ends with no model and the last error.\<close>

lemma load_model_all_rejected:
  assumes "\<forall>n \<in> set names. \<exists>e. GenerativeModel svc n = Inl e \<and> is_Exception e"
      and "names \<noteq> []" and "GenerativeModel svc (last names) = Inl e"
  shows "load_model svc names last_error = (Inr (None, Some e), map Call_GenerativeModel names)"
  using assms
proof (induction names arbitrary: last_error)
  case Nil
  then show ?case by simp
next
  case (Cons n names)
  then show ?case by (cases names) auto
qed

lemma generate_gemini_content_request:
  assumes "Call_generate_content model prompt settings config
             \<in> set (snd (generate_gemini_content svc t))"
  shows "settings = safety_settings \<and> config = generation_config
         \<and> prompt = format_transcript PROMPT_TEMPLATE t"
  using assms load_model_effects [of "Call_generate_content model prompt settings config" svc
          model_names_to_try None]
  by (auto simp: generate_gemini_content_def generate_gemini_content_try_def
           split: prod.splits sum.splits option.splits if_splits)

lemma extract_no_generation:
  "Call_generate_content model prompt settings config
     \<notin> set (snd (extract_transcript_details lib svc url))"
  by (auto simp: extract_transcript_details_def extract_transcript_details_try_def
           split: sum.splits option.splits if_splits)

lemma extract_no_download:
  "filter is_download (snd (extract_transcript_details lib svc url)) = []"
  by (auto simp: extract_transcript_details_def extract_transcript_details_try_def
           split: sum.splits option.splits if_splits)

lemma generate_no_download:
  "filter is_download (snd (generate_gemini_content svc t)) = []"
proof -
  have "\<not> is_download x" if "x \<in> set (snd (load_model svc model_names_to_try None))" for x
    using load_model_effects [OF that] by auto
  then have "filter is_download (snd (load_model svc model_names_to_try None)) = []"
    by (simp add: filter_empty_conv)
  then show ?thesis
    by (auto simp: generate_gemini_content_def generate_gemini_content_try_def
             split: prod.splits sum.splits option.splits)
qed

lemmas run_defs =
  generate_summary_def extract_transcript_details_def extract_transcript_details_try_def
  generate_gemini_content_def generate_gemini_content_try_def get_video_id_def
  model_names_to_try_def is_Exception_def

text \<open>
  Claim C6. The names are tried in the order of the list: when the name at position \<open>i\<close>
  is accepted and every name before it is rejected, the calls to the generation service
  are the constructions for the first \<open>i + 1\<close> names, then one generation request on the
  model built from that name. When every name is rejected, the generator returns \<open>None\<close>
  after one construction per name, and its message carries the text of the error that
  the last name raised. A rejection is an exception of class \<open>Exception\<close>.
\<close>

theorem model_candidates_in_order:
  "(i < length model_names_to_try
      \<and> GenerativeModel svc (model_names_to_try ! i) = Inr m
      \<and> (\<forall>j<i. \<exists>e. GenerativeModel svc (model_names_to_try ! j) = Inl e \<and> is_Exception e)
    \<longrightarrow> filter is_generation_call (snd (generate_gemini_content svc t))
          = map Call_GenerativeModel (take (Suc i) model_names_to_try)
            @ [Call_generate_content m (format_transcript PROMPT_TEMPLATE t)
                 safety_settings generation_config])
   \<and> ((\<forall>n \<in> set model_names_to_try. \<exists>e. GenerativeModel svc n = Inl e \<and> is_Exception e)
        \<and> GenerativeModel svc (last model_names_to_try) = Inl e_last
    \<longrightarrow> generate_gemini_content svc t
          = (Inr None,
             map Call_GenerativeModel model_names_to_try
             @ [St_error (police_light @ '' Generation failed: ''
                  @ ''Could not load any model. Last error: '' @ str e_last)]))"
proof (intro conjI impI)
  assume a: "i < length model_names_to_try
      \<and> GenerativeModel svc (model_names_to_try ! i) = Inr m
      \<and> (\<forall>j<i. \<exists>e. GenerativeModel svc (model_names_to_try ! j) = Inl e \<and> is_Exception e)"
  then obtain le where
    "load_model svc model_names_to_try None
       = (Inr (Some m, le), map Call_GenerativeModel (take (Suc i) model_names_to_try))"
    using load_model_first_accepted [of i model_names_to_try svc m None] by blast
  then show "filter is_generation_call (snd (generate_gemini_content svc t))
          = map Call_GenerativeModel (take (Suc i) model_names_to_try)
            @ [Call_generate_content m (format_transcript PROMPT_TEMPLATE t)
                 safety_settings generation_config]"
    by (simp add: generate_gemini_content_def generate_gemini_content_try_def filter_map comp_def
             split: sum.splits)
next
  assume a: "(\<forall>n \<in> set model_names_to_try. \<exists>e. GenerativeModel svc n = Inl e \<and> is_Exception e)
        \<and> GenerativeModel svc (last model_names_to_try) = Inl e_last"
  have "model_names_to_try \<noteq> []" by (simp add: model_names_to_try_def)
  with a have "load_model svc model_names_to_try None
         = (Inr (None, Some e_last), map Call_GenerativeModel model_names_to_try)"
    using load_model_all_rejected [of model_names_to_try svc e_last None] by blast
  then show "generate_gemini_content svc t
          = (Inr None,
             map Call_GenerativeModel model_names_to_try
             @ [St_error (police_light @ '' Generation failed: ''
                  @ ''Could not load any model. Last error: '' @ str e_last)])"
    by (simp add: generate_gemini_content_def generate_gemini_content_try_def str_opt_def
                  is_Exception_def)
qed

theorem model_candidates_in_order_witness:
  "filter is_generation_call (snd (generate_gemini_content stub_services ''Hello world''))
     = [Call_GenerativeModel ''gemini-1.5-pro-latest'', Call_GenerativeModel ''gemini-pro'',
        Call_generate_content ''gemini-pro'' (format_transcript PROMPT_TEMPLATE ''Hello world'')
          safety_settings generation_config]
   \<and> generate_gemini_content rejecting_services ''Hello world''
     = (Inr None,
        [Call_GenerativeModel ''gemini-1.5-pro-latest'', Call_GenerativeModel ''gemini-pro'',
         Call_GenerativeModel ''models/gemini-pro'',
         St_error (police_light @ '' Generation failed: ''
           @ ''Could not load any model. Last error: unknown model models/gemini-pro'')])"
proof -
  have one: "\<forall>j<(1::nat). j = 0" by simp
  show ?thesis
    using model_candidates_in_order [of 1 stub_services "''gemini-pro''" "''Hello world''"]
          model_candidates_in_order [of _ rejecting_services _ "''Hello world''"
             "Exn OtherException ''unknown model models/gemini-pro''"]
    by (simp add: model_names_to_try_def stub_services_def rejecting_services_def
                  is_Exception_def one)
qed

text \<open>
  Claim C7. Every generation request of a run of the button carries the four safety
  thresholds \<open>BLOCK_ONLY_HIGH\<close> and the configuration temperature 0.3, top-p 0.95, top-k 40
  and 2048 output tokens; and the run is the same for all values of the two sliders.
\<close>

theorem fixed_generation_configuration:
  "(Call_generate_content model prompt settings config
      \<in> set (snd (generate_summary lib svc max_length temperature_slider url))
    \<longrightarrow> settings = [(''HARM_CATEGORY_HARASSMENT'', ''BLOCK_ONLY_HIGH''),
                    (''HARM_CATEGORY_HATE_SPEECH'', ''BLOCK_ONLY_HIGH''),
                    (''HARM_CATEGORY_SEXUALLY_EXPLICIT'', ''BLOCK_ONLY_HIGH''),
                    (''HARM_CATEGORY_DANGEROUS_CONTENT'', ''BLOCK_ONLY_HIGH'')]
        \<and> config = \<lparr> temperature = 3 / 10, top_p = 95 / 100, top_k = 40,
                      max_output_tokens = 2048 \<rparr>)
   \<and> generate_summary lib svc max_length temperature_slider url
       = generate_summary lib svc max_length' temperature_slider' url"
proof -
  have request: "settings = safety_settings \<and> config = generation_config"
    if a: "Call_generate_content model prompt settings config
             \<in> set (snd (generate_summary lib svc max_length temperature_slider url))"
  proof -
    have "\<exists>t. Call_generate_content model prompt settings config
                 \<in> set (snd (generate_gemini_content svc t))"
      using a extract_no_generation [of model prompt settings config lib svc url]
      by (auto simp: generate_summary_def split: prod.splits sum.splits option.splits if_splits)
         (metis snd_conv)+
    then show ?thesis
      using generate_gemini_content_request [of model prompt settings config svc] by blast
  qed
  have sliders: "generate_summary lib svc max_length temperature_slider url
                   = generate_summary lib svc max_length' temperature_slider' url"
    by (simp add: generate_summary_def)
  from request sliders show ?thesis
    by (simp add: safety_settings_def generation_config_def)
qed

theorem fixed_generation_configuration_witness:
  "filter is_generation_call
     (snd (generate_summary cpython stub_services 100 0 ''https://youtu.be/abc''))
     = [Call_GenerativeModel ''gemini-1.5-pro-latest'', Call_GenerativeModel ''gemini-pro'',
        Call_generate_content ''gemini-pro'' (format_transcript PROMPT_TEMPLATE ''Hello world'')
          [(''HARM_CATEGORY_HARASSMENT'', ''BLOCK_ONLY_HIGH''),
           (''HARM_CATEGORY_HATE_SPEECH'', ''BLOCK_ONLY_HIGH''),
           (''HARM_CATEGORY_SEXUALLY_EXPLICIT'', ''BLOCK_ONLY_HIGH''),
           (''HARM_CATEGORY_DANGEROUS_CONTENT'', ''BLOCK_ONLY_HIGH'')]
          \<lparr> temperature = 3 / 10, top_p = 95 / 100, top_k = 40, max_output_tokens = 2048 \<rparr>]
   \<and> generate_summary cpython stub_services 100 0 ''https://youtu.be/abc''
     = generate_summary cpython stub_services 500 1 ''https://youtu.be/abc''"
  using fixed_generation_configuration [of "''gemini-pro''"
          "format_transcript PROMPT_TEMPLATE ''Hello world''" safety_settings generation_config
          cpython stub_services 100 0 "''https://youtu.be/abc''" 500 1]
  by (simp add: run_defs stub_services_def safety_settings_def generation_config_def cpython_defs)


section \<open>The export of the summary\<close>

text \<open>
  Claim C8. When the retriever gives a transcript and the generator a summary, both not
  empty, the run of the button offers exactly two downloads: \<open>youtube_summary.txt\<close> with
  the summary as it is, and \<open>youtube_summary.md\<close> with the line \<open># YouTube Summary\<close>, an
  empty line and the same summary.
\<close>

theorem export_artifacts:
  assumes "url \<noteq> []"
      and "fst (extract_transcript_details lib svc url) = Inr (Some transcript)"
      and "transcript \<noteq> []"
      and "fst (generate_gemini_content svc transcript) = Inr (Some summary)"
      and "summary \<noteq> []"
  shows "filter is_download (snd (generate_summary lib svc max_length temperature_slider url))
           = [St_download_button ''Download as TXT'' summary
                ''youtube_summary.txt'' ''text/plain'',
              St_download_button ''Download as MD''
                (''# YouTube Summary'' @ [CHR 0x0A, CHR 0x0A] @ summary)
                ''youtube_summary.md'' ''text/markdown'']"
proof -
  obtain effs where e: "extract_transcript_details lib svc url = (Inr (Some transcript), effs)"
    using assms(2) by (cases "extract_transcript_details lib svc url") auto
  obtain effs' where g: "generate_gemini_content svc transcript = (Inr (Some summary), effs')"
    using assms(4) by (cases "generate_gemini_content svc transcript") auto
  have "filter is_download effs = []"
    using extract_no_download [of lib svc url] e by simp
  moreover have "filter is_download effs' = []"
    using generate_no_download [of svc transcript] g by simp
  ultimately show ?thesis
    using assms(1,3,5) e g by (simp add: generate_summary_def)
qed

theorem export_artifacts_witness:
  "fst (extract_transcript_details cpython stub_services ''https://youtu.be/abc'')
     = Inr (Some ''Hello world'')
   \<and> fst (generate_gemini_content stub_services ''Hello world'')
     = Inr (Some (''Summary of: '' @ format_transcript PROMPT_TEMPLATE ''Hello world''))
   \<and> filter is_download
       (snd (generate_summary cpython stub_services 250 (3 / 10) ''https://youtu.be/abc''))
     = [St_download_button ''Download as TXT''
          (''Summary of: '' @ format_transcript PROMPT_TEMPLATE ''Hello world'')
          ''youtube_summary.txt'' ''text/plain'',
        St_download_button ''Download as MD''
          (''# YouTube Summary'' @ [CHR 0x0A, CHR 0x0A]
             @ ''Summary of: '' @ format_transcript PROMPT_TEMPLATE ''Hello world'')
          ''youtube_summary.md'' ''text/markdown'']"
  using export_artifacts [of "''https://youtu.be/abc''" cpython stub_services "''Hello world''"
          "''Summary of: '' @ format_transcript PROMPT_TEMPLATE ''Hello world''" 250 "3 / 10"]
  by (simp add: run_defs stub_services_def cpython_defs)

end
